theory Spec2Isabelle
  imports Main
begin

section \<open>Python values and their text\<close>

text \<open>
  The orchestration code of sf-backtester builds paths, a batch script and messages by
  string interpolation. The model keeps strings as character lists and writes out the
  decimal text that \<^verbatim>\<open>str\<close> gives an integer. A Python float is a value of a type
  parameter \<open>'f\<close>; its text is given by a function \<open>fmt\<close> that every interpolating
  definition takes as its first argument.
\<close>

definition NL :: string where
  "NL = [CHR 0x0A]"

definition BSL :: string where
  "BSL = [CHR 0x5C]"

definition SQ :: string where
  "SQ = [CHR 0x27]"

definition digit_char :: "nat \<Rightarrow> char" where
  "digit_char d = ''0123456789'' ! d"

function str_nat :: "nat \<Rightarrow> string" where
  "str_nat n = (if n < 10 then [digit_char n] else str_nat (n div 10) @ [digit_char (n mod 10)])"
  by pat_completeness auto
termination
  by (relation "measure (\<lambda>n. n)") auto

declare str_nat.simps [simp del]

definition str_int :: "int \<Rightarrow> string" where
  "str_int i = (if i < 0 then ''-'' @ str_nat (nat (- i)) else str_nat (nat i))"

text \<open>\<^verbatim>\<open>sep.join(xs)\<close>\<close>

fun join :: "string \<Rightarrow> string list \<Rightarrow> string" where
  "join sep [] = []"
| "join sep [x] = x"
| "join sep (x # y # ys) = x @ sep @ join sep (y # ys)"

text \<open>An optional string inside an f-string: \<^verbatim>\<open>None\<close> prints as the word None.\<close>

definition str_opt :: "string option \<Rightarrow> string" where
  "str_opt v = (case v of None \<Rightarrow> ''None'' | Some s \<Rightarrow> s)"

section \<open>Errors\<close>

text \<open>
  Every exception the modelled code can raise is a constructor. \<open>IllTyped\<close> is not a
  Python exception: it marks a document whose value does not have the annotated type of
  the field it is stored in (Python stores such a value unchecked; the typed model stops).
\<close>

datatype error =
    TypeError string
  | KeyError string
  | IndexError string
  | FileNotFoundError string
  | ColumnNotFoundError string
  | CalledProcessError int "string list" string string
  | IllTyped string

section \<open>config.py\<close>

record SlurmConfig =
  n_cpus :: int
  mem :: string
  time :: string
  mail_type :: string
  max_concurrent_jobs :: int

record 'f BacktestConfig =
  signal_name :: string
  data_path :: string
  gamma :: 'f
  project_root :: string
  byu_email :: string
  constraints :: "string list"
  slurm :: SlurmConfig
  output_dir :: "string option"
  logs_dir :: "string option"

text \<open>The two derived paths, as the f-strings of \<^verbatim>\<open>__post_init__\<close> and of the CLI write them.\<close>

definition derived_output_dir :: "('f \<Rightarrow> string) \<Rightarrow> string \<Rightarrow> string \<Rightarrow> 'f \<Rightarrow> string" where
  "derived_output_dir fmt root name g = root @ ''/weights/'' @ name @ ''/'' @ fmt g"

definition derived_logs_dir :: "('f \<Rightarrow> string) \<Rightarrow> string \<Rightarrow> 'f \<Rightarrow> string" where
  "derived_logs_dir fmt name g = ''logs/'' @ name @ ''/'' @ fmt g"

text \<open>\<^verbatim>\<open>BacktestConfig.__post_init__\<close>, on a config whose slurm block is already a SlurmConfig.\<close>

definition post_init :: "('f \<Rightarrow> string) \<Rightarrow> 'f BacktestConfig \<Rightarrow> 'f BacktestConfig" where
  "post_init fmt c =
     (let c1 = (if output_dir c = None
                then c\<lparr>output_dir := Some (derived_output_dir fmt (project_root c) (signal_name c) (gamma c))\<rparr>
                else c);
          c2 = (if logs_dir c1 = None
                then c1\<lparr>logs_dir := Some (derived_logs_dir fmt (signal_name c1) (gamma c1))\<rparr>
                else c1)
      in c2)"

section \<open>cli.py: the overrides of main\<close>

text \<open>
  \<^verbatim>\<open>main\<close> patches the loaded config in place before it submits; the model returns the
  patched config. Both options are optional (\<^verbatim>\<open>None\<close> when absent).
\<close>

definition apply_overrides ::
  "('f \<Rightarrow> string) \<Rightarrow> string option \<Rightarrow> 'f option \<Rightarrow> 'f BacktestConfig \<Rightarrow> 'f BacktestConfig" where
  "apply_overrides fmt data_path_opt gamma_opt c =
     (let c1 = (case data_path_opt of None \<Rightarrow> c | Some p \<Rightarrow> c\<lparr>data_path := p\<rparr>)
      in case gamma_opt of
           None \<Rightarrow> c1
         | Some g \<Rightarrow>
             c1\<lparr>gamma := g,
                output_dir := Some (project_root c1 @ ''/weights/'' @ signal_name c1 @ ''/'' @ fmt g),
                logs_dir := Some (''logs/'' @ signal_name c1 @ ''/'' @ fmt g)\<rparr>)"

section \<open>slurm.py: the batch script\<close>

definition unlines :: "string list \<Rightarrow> string" where
  "unlines ls = concat (map (\<lambda>l. l @ NL) ls)"

definition years_str :: "int list \<Rightarrow> string" where
  "years_str years = join '' '' (map str_int years)"

definition constraints_str :: "'f BacktestConfig \<Rightarrow> string" where
  "constraints_str config = join '' '' (constraints config)"

text \<open>
  The template of \<^verbatim>\<open>generate_sbatch_script\<close>, cut into its blocks in the order of the
  source. \<open>worker_script\<close> is the path that \<^verbatim>\<open>get_worker_script_path\<close> returns, a fact
  of the installation.
\<close>

definition array_directive :: "'f BacktestConfig \<Rightarrow> int list \<Rightarrow> string" where
  "array_directive config years =
     ''#SBATCH --array=0-'' @ str_int (int (length years) - 1) @ ''%''
       @ str_int (max_concurrent_jobs (slurm config))"

definition script_head :: "'f BacktestConfig \<Rightarrow> string list" where
  "script_head config =
     [''#!/bin/bash'',
      ''#SBATCH --job-name='' @ signal_name config @ ''_backtest'',
      ''#SBATCH --output='' @ str_opt (logs_dir config) @ ''/backtest_%A_%a.out'',
      ''#SBATCH --error='' @ str_opt (logs_dir config) @ ''/backtest_%A_%a.err'']"

definition script_resources :: "'f BacktestConfig \<Rightarrow> string list" where
  "script_resources config =
     [''#SBATCH --cpus-per-task='' @ str_int (n_cpus (slurm config)),
      ''#SBATCH --mem='' @ mem (slurm config),
      ''#SBATCH --time='' @ time (slurm config),
      ''#SBATCH --mail-user='' @ byu_email config,
      ''#SBATCH --mail-type='' @ mail_type (slurm config)]"

definition script_settings :: "('f \<Rightarrow> string) \<Rightarrow> 'f BacktestConfig \<Rightarrow> string list" where
  \<open>script_settings fmt config =
     [[],
      ''export RAY_ACCEL_ENV_VAR_OVERRIDE_ON_ZERO=0'',
      [],
      ''DATA_PATH="'' @ data_path config @ ''"'',
      ''OUTPUT_DIR="'' @ str_opt (output_dir config) @ ''"'',
      ''GAMMA="'' @ fmt (gamma config) @ ''"'',
      ''N_CPUS="'' @ str_int (n_cpus (slurm config)) @ ''"'',
      ''CONSTRAINTS="'' @ constraints_str config @ ''"'',
      [],
      ''# Years to process'']\<close>

definition years_line :: "int list \<Rightarrow> string" where
  "years_line years = ''years=('' @ years_str years @ '')''"

definition script_guard :: "string list" where
  \<open>script_guard =
     [[],
      ''num_years=${#years[@]}'',
      [],
      ''if [ $SLURM_ARRAY_TASK_ID -ge $num_years ]; then'',
      ''    echo "Task ID $SLURM_ARRAY_TASK_ID is out of range (max $((num_years-1)))."'',
      ''    exit 1'',
      ''fi'']\<close>

definition script_invocation :: "string \<Rightarrow> 'f BacktestConfig \<Rightarrow> string list" where
  \<open>script_invocation worker_script config =
     [[],
      ''year=${years[$SLURM_ARRAY_TASK_ID]}'',
      [],
      ''source '' @ project_root config @ ''/.venv/bin/activate'',
      ''echo "Running year=$year"'',
      ''srun python '' @ worker_script @ '' '' @ BSL,
      ''    --data_path "$DATA_PATH" '' @ BSL,
      ''    --gamma "$GAMMA" '' @ BSL,
      ''    --year "$year" '' @ BSL,
      ''    --output_dir "$OUTPUT_DIR" '' @ BSL,
      ''    --n_cpus "$N_CPUS" '' @ BSL,
      ''    --constraints $CONSTRAINTS'']\<close>

definition generate_sbatch_script ::
  "('f \<Rightarrow> string) \<Rightarrow> string \<Rightarrow> 'f BacktestConfig \<Rightarrow> int list \<Rightarrow> string" where
  "generate_sbatch_script fmt worker_script config years =
     unlines (script_head config @ [array_directive config years] @ script_resources config
              @ script_settings fmt config @ [years_line years] @ script_guard
              @ script_invocation worker_script config)"

subsection \<open>What the script does when an array task runs it\<close>






subsection \<open>Submitting the script\<close>

text \<open>
  The file system, the terminal and the scheduler are the world the submitter acts on:
  text files by path, the printed lines, and the log of scheduler command lines that
  were run. The scheduler itself is a parameter: from the path it is given and the files
  it sees, it either cannot be started or exits with a status and two streams, and it may
  change files.
\<close>

record world =
  files :: "string \<rightharpoonup> string"
  dirs :: "string set"
  stdout :: "string list"
  sbatch_calls :: "string list list"

datatype sbatch_outcome =
    CannotLaunch error
  | Exited int string string

record CompletedProcess =
  args :: "string list"
  returncode :: int
  out_text :: string
  err_text :: string

record env =
  tmp_name :: string
  sbatch :: "string \<Rightarrow> (string \<rightharpoonup> string) \<Rightarrow> sbatch_outcome \<times> (string \<rightharpoonup> string)"
  worker_script_path :: string

definition banner :: string where
  "banner = replicate 60 (CHR ''='')"

definition submit_job ::
  "env \<Rightarrow> string \<Rightarrow> bool \<Rightarrow> world \<Rightarrow> (error + CompletedProcess option) \<times> world" where
  "submit_job e script_content dry_run w =
     (if dry_run
      then (Inr None,
            w\<lparr>stdout := stdout w @ [banner, ''DRY RUN - Would submit the following script:'',
                                     banner, script_content, banner]\<rparr>)
      else
        (let script_path = tmp_name e;
             w1 = w\<lparr>files := (files w)(script_path \<mapsto> script_content)\<rparr>;
             cmd = [''sbatch'', script_path];
             (outcome, fs) = sbatch e script_path (files w1);
             w2 = w1\<lparr>files := fs, sbatch_calls := sbatch_calls w1 @ [cmd]\<rparr>;
             res = (case outcome of
                      CannotLaunch err \<Rightarrow> Inl err
                    | Exited rc out err \<Rightarrow>
                        if rc \<noteq> 0 then Inl (CalledProcessError rc cmd out err)
                        else Inr (Some \<lparr>args = cmd, returncode = rc, out_text = out, err_text = err\<rparr>));
             w3 = (if files w2 script_path \<noteq> None
                   then w2\<lparr>files := (files w2)(script_path := None)\<rparr> else w2)
         in (res, w3)))"

section \<open>config.py: the YAML form\<close>

text \<open>
  \<^verbatim>\<open>to_yaml\<close> builds a dictionary and hands it to \<^verbatim>\<open>yaml.dump\<close>; \<^verbatim>\<open>from_yaml\<close> gets
  the dictionary back from \<^verbatim>\<open>yaml.safe_load\<close> and passes it to the constructor as keyword
  arguments. The document is the value of type \<open>yaml\<close> below, and a YAML file holds a
  document: the text that PyYAML writes for it and reads back is PyYAML's, not this
  repository's.
\<close>

datatype 'f yaml =
    YNull
  | YBool bool
  | YInt int
  | YFloat 'f
  | YStr string
  | YSeq "'f yaml list"
  | YMap "(string \<times> 'f yaml) list"

definition bindE :: "error + 'a \<Rightarrow> ('a \<Rightarrow> error + 'b) \<Rightarrow> error + 'b" where
  "bindE m f = (case m of Inl e \<Rightarrow> Inl e | Inr x \<Rightarrow> f x)"

definition as_str :: "string \<Rightarrow> 'f yaml \<Rightarrow> error + string" where
  "as_str k v = (case v of YStr s \<Rightarrow> Inr s | _ \<Rightarrow> Inl (IllTyped k))"

definition as_int :: "string \<Rightarrow> 'f yaml \<Rightarrow> error + int" where
  "as_int k v = (case v of YInt i \<Rightarrow> Inr i | _ \<Rightarrow> Inl (IllTyped k))"

definition as_float :: "string \<Rightarrow> 'f yaml \<Rightarrow> error + 'f" where
  "as_float k v = (case v of YFloat g \<Rightarrow> Inr g | _ \<Rightarrow> Inl (IllTyped k))"

definition as_opt_str :: "string \<Rightarrow> 'f yaml \<Rightarrow> error + string option" where
  "as_opt_str k v = (case v of YNull \<Rightarrow> Inr None | YStr s \<Rightarrow> Inr (Some s) | _ \<Rightarrow> Inl (IllTyped k))"

fun as_str_list :: "string \<Rightarrow> 'f yaml list \<Rightarrow> error + string list" where
  "as_str_list k [] = Inr []"
| "as_str_list k (v # vs) =
     bindE (as_str k v) (\<lambda>s. bindE (as_str_list k vs) (\<lambda>ss. Inr (s # ss)))"

definition as_seq :: "string \<Rightarrow> 'f yaml \<Rightarrow> error + string list" where
  "as_seq k v = (case v of YSeq vs \<Rightarrow> as_str_list k vs | _ \<Rightarrow> Inl (IllTyped k))"

text \<open>A keyword argument that must be given, and one that has a default.\<close>

definition required :: "(string \<times> 'f yaml) list \<Rightarrow> string \<Rightarrow> (string \<Rightarrow> 'f yaml \<Rightarrow> error + 'a) \<Rightarrow> error + 'a" where
  "required kwargs k conv =
     (case map_of kwargs k of
        None \<Rightarrow> Inl (TypeError (''missing required argument '' @ k))
      | Some v \<Rightarrow> conv k v)"

definition optional :: "(string \<times> 'f yaml) list \<Rightarrow> string \<Rightarrow> (string \<Rightarrow> 'f yaml \<Rightarrow> error + 'a) \<Rightarrow> 'a \<Rightarrow> error + 'a" where
  "optional kwargs k conv dflt =
     (case map_of kwargs k of None \<Rightarrow> Inr dflt | Some v \<Rightarrow> conv k v)"

definition unexpected :: "(string \<times> 'f yaml) list \<Rightarrow> string list \<Rightarrow> string list" where
  "unexpected kwargs names = filter (\<lambda>k. k \<notin> set names) (map fst kwargs)"

definition SlurmConfig_fields :: "string list" where
  "SlurmConfig_fields = [''n_cpus'', ''mem'', ''time'', ''mail_type'', ''max_concurrent_jobs'']"

text \<open>\<^verbatim>\<open>SlurmConfig(**d)\<close>, with the defaults of the dataclass.\<close>

definition SlurmConfig_init :: "(string \<times> 'f yaml) list \<Rightarrow> error + SlurmConfig" where
  "SlurmConfig_init kwargs =
     (case unexpected kwargs SlurmConfig_fields of
        k # _ \<Rightarrow> Inl (TypeError (''unexpected keyword argument '' @ k))
      | [] \<Rightarrow>
          bindE (optional kwargs ''n_cpus'' as_int 8) (\<lambda>a.
          bindE (optional kwargs ''mem'' as_str ''32G'') (\<lambda>b.
          bindE (optional kwargs ''time'' as_str ''06:00:00'') (\<lambda>c.
          bindE (optional kwargs ''mail_type'' as_str ''BEGIN,END,FAIL'') (\<lambda>d.
          bindE (optional kwargs ''max_concurrent_jobs'' as_int 31) (\<lambda>m.
            Inr \<lparr>n_cpus = a, mem = b, time = c, mail_type = d, max_concurrent_jobs = m\<rparr>))))))"

definition as_slurm :: "string \<Rightarrow> 'f yaml \<Rightarrow> error + SlurmConfig" where
  "as_slurm k v = (case v of YMap d \<Rightarrow> SlurmConfig_init d | _ \<Rightarrow> Inl (IllTyped k))"

definition BacktestConfig_fields :: "string list" where
  "BacktestConfig_fields =
     [''signal_name'', ''data_path'', ''gamma'', ''project_root'', ''byu_email'',
      ''constraints'', ''slurm'', ''output_dir'', ''logs_dir'']"

text \<open>
  \<^verbatim>\<open>BacktestConfig(**data)\<close>: the generated constructor stores the keyword arguments, then
  \<^verbatim>\<open>__post_init__\<close> fills the derived paths that are None and turns the slurm dictionary
  into a SlurmConfig.
\<close>

definition BacktestConfig_init :: "('f \<Rightarrow> string) \<Rightarrow> (string \<times> 'f yaml) list \<Rightarrow> error + 'f BacktestConfig" where
  "BacktestConfig_init fmt kwargs =
     (case unexpected kwargs BacktestConfig_fields of
        k # _ \<Rightarrow> Inl (TypeError (''unexpected keyword argument '' @ k))
      | [] \<Rightarrow>
          bindE (required kwargs ''signal_name'' as_str) (\<lambda>sn.
          bindE (required kwargs ''data_path'' as_str) (\<lambda>dp.
          bindE (required kwargs ''gamma'' as_float) (\<lambda>g.
          bindE (required kwargs ''project_root'' as_str) (\<lambda>pr.
          bindE (required kwargs ''byu_email'' as_str) (\<lambda>em.
          bindE (required kwargs ''constraints'' as_seq) (\<lambda>cs.
          bindE (optional kwargs ''output_dir'' as_opt_str None) (\<lambda>od.
          bindE (optional kwargs ''logs_dir'' as_opt_str None) (\<lambda>ld.
          bindE (required kwargs ''slurm'' as_slurm) (\<lambda>sl.
            Inr (post_init fmt
                  \<lparr>signal_name = sn, data_path = dp, gamma = g, project_root = pr,
                   byu_email = em, constraints = cs, slurm = sl,
                   output_dir = od, logs_dir = ld\<rparr>)))))))))))"





section \<open>runner.py\<close>

text \<open>
  Of a data frame the runner reads one column, the dates, and of a date its year. A frame
  without the column has \<open>None\<close> there. Parquet files are frames by path.
\<close>

record date =
  year :: int
  month :: int
  day :: int

record dataframe =
  date_column :: "date list option"

record 'f BacktestRunner =
  config :: "'f BacktestConfig"
  data_cache :: "dataframe option"

record disk =
  world_of :: world
  tables :: "string \<rightharpoonup> dataframe"

definition load_data ::
  "'f BacktestRunner \<Rightarrow> dataframe option \<Rightarrow> disk \<Rightarrow> (error + dataframe) \<times> 'f BacktestRunner" where
  "load_data r data d =
     (case data of
        Some df \<Rightarrow> (Inr df, r\<lparr>data_cache := Some df\<rparr>)
      | None \<Rightarrow>
          (case data_cache r of
             Some df \<Rightarrow> (Inr df, r)
           | None \<Rightarrow>
               (case tables d (data_path (config r)) of
                  None \<Rightarrow> (Inl (FileNotFoundError (data_path (config r))), r)
                | Some df \<Rightarrow> (Inr df, r\<lparr>data_cache := Some df\<rparr>))))"

text \<open>
  \<^verbatim>\<open>get_years\<close>: the years of the date column, \<^verbatim>\<open>unique()\<close> (one row for each distinct
  value), then \<^verbatim>\<open>sort("year")\<close>.
\<close>

definition get_years :: "dataframe \<Rightarrow> error + int list" where
  "get_years df =
     (case date_column df of
        None \<Rightarrow> Inl (ColumnNotFoundError ''date'')
      | Some ds \<Rightarrow> Inr (sort (remdups (map year ds))))"

definition prepare ::
  "'f BacktestRunner \<Rightarrow> dataframe option \<Rightarrow> disk \<Rightarrow> (error + unit) \<times> 'f BacktestRunner \<times> disk" where
  "prepare r data d =
     (case output_dir (config r) of
        None \<Rightarrow> (Inl (TypeError ''expected str, bytes or os.PathLike object, not NoneType''), r, d)
      | Some od \<Rightarrow>
          (let d1 = d\<lparr>world_of := (world_of d)\<lparr>dirs := insert od (dirs (world_of d))\<rparr>\<rparr>
           in case logs_dir (config r) of
                None \<Rightarrow> (Inl (TypeError ''expected str, bytes or os.PathLike object, not NoneType''), r, d1)
              | Some ld \<Rightarrow>
                  (let w2 = (world_of d1)\<lparr>dirs := insert (project_root (config r) @ ''/temp'')
                                                    (insert ld (dirs (world_of d1)))\<rparr>;
                       d2 = d1\<lparr>world_of := w2\<rparr>
                   in case data of
                        None \<Rightarrow> (Inr (), r, d2)
                      | Some df \<Rightarrow>
                          (Inr (), r\<lparr>data_cache := Some df\<rparr>,
                           d2\<lparr>tables := (tables d2)(data_path (config r) \<mapsto> df)\<rparr>))))"

text \<open>
  The text Python prints for a list of strings whose characters need no escape: each in
  single quotes, separated by a comma and a blank, in brackets.
\<close>

definition repr_str_list :: "string list \<Rightarrow> string" where
  "repr_str_list xs = ''['' @ join '', '' (map (\<lambda>s. SQ @ s @ SQ) xs) @ '']''"

definition submit ::
  "('f \<Rightarrow> string) \<Rightarrow> env \<Rightarrow> 'f BacktestRunner \<Rightarrow> dataframe option \<Rightarrow> bool \<Rightarrow> disk
     \<Rightarrow> (error + unit) \<times> 'f BacktestRunner \<times> disk" where
  "submit fmt e r data dry_run d =
     (case prepare r data d of
        (Inl err, r1, d1) \<Rightarrow> (Inl err, r1, d1)
      | (Inr _, r1, d1) \<Rightarrow>
          (case load_data r1 data d1 of
             (Inl err, r2) \<Rightarrow> (Inl err, r2, d1)
           | (Inr df, r2) \<Rightarrow>
               (case get_years df of
                  Inl err \<Rightarrow> (Inl err, r2, d1)
                | Inr [] \<Rightarrow> (Inl (IndexError ''list index out of range''), r2, d1)
                | Inr (y # ys) \<Rightarrow>
                    (let years = y # ys;
                         c = config r2;
                         w1 = world_of d1;
                         w2 = w1\<lparr>stdout := stdout w1 @
                                [''Preparing backtest for '' @ str_nat (length years) @ '' years: ''
                                   @ str_int (hd years) @ ''-'' @ str_int (last years),
                                 ''Signal: '' @ signal_name c,
                                 ''Gamma: '' @ fmt (gamma c),
                                 ''Constraints: '' @ repr_str_list (constraints c),
                                 ''Output directory: '' @ str_opt (output_dir c)]\<rparr>;
                         script = generate_sbatch_script fmt (worker_script_path e) c years;
                         (res, w3) = submit_job e script dry_run w2
                     in case res of
                          Inl err \<Rightarrow> (Inl err, r2, d1\<lparr>world_of := w3\<rparr>)
                        | Inr None \<Rightarrow> (Inr (), r2, d1\<lparr>world_of := w3\<rparr>)
                        | Inr (Some cp) \<Rightarrow>
                            (Inr (), r2,
                             d1\<lparr>world_of := w3\<lparr>stdout := stdout w3 @
                                   [''Job submitted successfully!'', ''sbatch output: '' @ out_text cp]
                                   @ (if err_text cp \<noteq> [] then [''sbatch stderr: '' @ err_text cp] else [])\<rparr>\<rparr>)))))"

section \<open>scripts/mvo\_worker.py: the constraint registry\<close>

text \<open>
  The registry maps a name to a class of the optimizer library; an instance of the class
  is a value of \<open>constraint\<close>.
\<close>

datatype constraint = ZeroBeta | ZeroInvestment

definition CONSTRAINT_REGISTRY :: "(string \<times> constraint) list" where
  "CONSTRAINT_REGISTRY = [(''ZeroBeta'', ZeroBeta), (''ZeroInvestment'', ZeroInvestment)]"

definition unknown_constraint :: "string \<Rightarrow> error" where
  "unknown_constraint name =
     KeyError (''Unknown constraint '' @ SQ @ name @ SQ @ ''. Available: ''
               @ join '', '' (map fst CONSTRAINT_REGISTRY))"

fun constraints_loop :: "constraint list \<Rightarrow> string list \<Rightarrow> error + constraint list" where
  "constraints_loop acc [] = Inr acc"
| "constraints_loop acc (name # rest) =
     (case map_of CONSTRAINT_REGISTRY name of
        None \<Rightarrow> Inl (unknown_constraint name)
      | Some k \<Rightarrow> constraints_loop (acc @ [k]) rest)"

definition get_constraints :: "string list \<Rightarrow> error + constraint list" where
  "get_constraints constraint_names = constraints_loop [] constraint_names"

section \<open>A concrete run\<close>

text \<open>
  The configuration of the end-to-end example: signal alpha, data file d.parquet, gamma
  0.5, one array task at a time, four CPUs. In the examples a float is written by its
  text.
\<close>

definition demo_config :: "string BacktestConfig" where
  "demo_config =
     \<lparr>signal_name = ''alpha'', data_path = ''d.parquet'', gamma = ''0.5'',
      project_root = ''/home/user/proj'', byu_email = ''user@byu.edu'',
      constraints = [''ZeroBeta'', ''ZeroInvestment''],
      slurm = \<lparr>n_cpus = 4, mem = ''32G'', time = ''06:00:00'', mail_type = ''BEGIN,END,FAIL'',
               max_concurrent_jobs = 1\<rparr>,
      output_dir = Some ''/home/user/proj/weights/alpha/0.5'',
      logs_dir = Some ''logs/alpha/0.5''\<rparr>"

definition demo_fmt :: "string \<Rightarrow> string" where
  "demo_fmt g = g"


definition demo_world :: world where
  "demo_world = \<lparr>files = Map.empty, dirs = {}, stdout = [], sbatch_calls = []\<rparr>"

definition rejecting_env :: env where
  "rejecting_env =
     \<lparr>tmp_name = ''/tmp/tmpk3v9.sh'',
      sbatch = (\<lambda>path fs. (Exited 1 [] ''sbatch: error: invalid partition'', fs)),
      worker_script_path = ''/opt/sf/mvo_worker.py''\<rparr>"


definition demo_runner :: "string BacktestRunner" where
  "demo_runner = \<lparr>config = demo_config, data_cache = None\<rparr>"

definition demo_disk :: disk where
  "demo_disk = \<lparr>world_of = demo_world, tables = Map.empty\<rparr>"

definition empty_frame :: dataframe where
  "empty_frame = \<lparr>date_column = Some []\<rparr>"

section \<open>Theorems\<close>

text \<open>
  C1. Overriding gamma gives a config that carries the new gamma and whose output
  directory is projectRoot/weights/name/g and whose logs directory is logs/name/g, both
  written from the new value in the same step, whatever the two paths were before and
  whether or not the data path is overridden too; these are exactly the paths that
  construction derives for the new gamma, and every other field is left as it was.
\<close>

theorem gamma_override_recomputes_paths:
  "output_dir (apply_overrides fmt dp (Some g) c) =
     Some (project_root c @ ''/weights/'' @ signal_name c @ ''/'' @ fmt g)
   \<and> logs_dir (apply_overrides fmt dp (Some g) c) = Some (''logs/'' @ signal_name c @ ''/'' @ fmt g)
   \<and> gamma (apply_overrides fmt dp (Some g) c) = g
   \<and> apply_overrides fmt dp (Some g) c =
       post_init fmt (c\<lparr>data_path := (case dp of None \<Rightarrow> data_path c | Some p \<Rightarrow> p),
                        gamma := g, output_dir := None, logs_dir := None\<rparr>)"
  by (cases dp) (simp_all add: apply_overrides_def post_init_def derived_output_dir_def
      derived_logs_dir_def Let_def)

subsection \<open>Decimal text and word splitting\<close>










subsection \<open>The array directive\<close>

lemma str_int_nonneg: "0 \<le> i \<Longrightarrow> str_int i = str_nat (nat i)"
  by (simp add: str_int_def)

text \<open>
  C5. For a non-empty list of N partitions the script's array directive is the line after
  the job name and the two log templates, and it reads \<^verbatim>\<open>#SBATCH --array=0-\<close>, the
  decimal text of N - 1, a percent sign and the configured maximum of concurrent jobs;
  for three partitions the range is 0-2.
\<close>

theorem array_directive_spans_partitions:
  "years \<noteq> [] \<Longrightarrow>
   generate_sbatch_script fmt ws cfg years =
     unlines (script_head cfg)
     @ (''#SBATCH --array=0-'' @ str_nat (length years - 1) @ ''%''
          @ str_int (max_concurrent_jobs (slurm cfg))) @ NL
     @ unlines (script_resources cfg @ script_settings fmt cfg @ [years_line years]
                @ script_guard @ script_invocation ws cfg)
   \<and> (length years = 3 \<longrightarrow>
        array_directive cfg years =
          ''#SBATCH --array=0-2%'' @ str_int (max_concurrent_jobs (slurm cfg)))"
proof -
  assume ne: "years \<noteq> []"
  then have pos: "0 < length years" by simp
  then have n: "nat (int (length years) - 1) = length years - 1" by simp
  have le: "0 \<le> int (length years) - 1" using pos by simp
  have d: "array_directive cfg years =
      ''#SBATCH --array=0-'' @ str_nat (length years - 1) @ ''%''
          @ str_int (max_concurrent_jobs (slurm cfg))"
    unfolding array_directive_def using str_int_nonneg[OF le] n by simp
  have g: "generate_sbatch_script fmt ws cfg years =
     unlines (script_head cfg) @ array_directive cfg years @ NL
     @ unlines (script_resources cfg @ script_settings fmt cfg @ [years_line years]
                @ script_guard @ script_invocation ws cfg)"
    by (simp add: generate_sbatch_script_def unlines_def)
  have three: "length years = 3 \<longrightarrow> str_nat (length years - 1) = ''2''"
    by (simp add: str_nat.simps digit_char_def)
  show ?thesis using d g three by simp
qed

theorem array_directive_spans_partitions_witness:
  "generate_sbatch_script demo_fmt ''w.py'' demo_config [2019, 2020, 2021] =
     unlines (script_head demo_config) @ ''#SBATCH --array=0-2%1'' @ NL
     @ unlines (script_resources demo_config @ script_settings demo_fmt demo_config
                @ [years_line [2019, 2020, 2021]] @ script_guard @ script_invocation ''w.py'' demo_config)"
  using array_directive_spans_partitions [of "[2019, 2020, 2021]" demo_fmt "''w.py''" demo_config]
  by (simp add: demo_config_def str_int_def str_nat.simps digit_char_def)

subsection \<open>The task index and the partitions\<close>





subsection \<open>The partitions of a data frame\<close>



subsection \<open>The constraint registry\<close>

lemma constraints_loop_find:
  "constraints_loop acc names =
     (case find (\<lambda>n. map_of CONSTRAINT_REGISTRY n = None) names of
        None \<Rightarrow> Inr (acc @ map (\<lambda>n. the (map_of CONSTRAINT_REGISTRY n)) names)
      | Some bad \<Rightarrow> Inl (unknown_constraint bad))"
  by (induction names arbitrary: acc) (auto split: option.splits)

lemma registry_unknown:
  "map_of CONSTRAINT_REGISTRY n = None \<longleftrightarrow> n \<notin> set (map fst CONSTRAINT_REGISTRY)"
  by (simp add: map_of_eq_None_iff)

lemma available_names: "join '', '' (map fst CONSTRAINT_REGISTRY) = ''ZeroBeta, ZeroInvestment''"
  by (simp add: CONSTRAINT_REGISTRY_def)

text \<open>
  C9. get_constraints raises exactly when some name is not a key of the registry. When
  it returns, the list has one constraint for each name, the one the registry gives that
  name, in the order of the names. When it raises, the error is a KeyError whose message
  names an unknown name of the input and lists the valid names, ZeroBeta and
  ZeroInvestment; no unknown name is replaced by a default.
\<close>

theorem get_constraints_all_or_error:
  "(isl (get_constraints names) \<longleftrightarrow> (\<exists>n \<in> set names. n \<notin> set (map fst CONSTRAINT_REGISTRY)))
   \<and> (\<forall>cs. get_constraints names = Inr cs \<longrightarrow>
         length cs = length names
         \<and> (\<forall>i < length names. map_of CONSTRAINT_REGISTRY (names ! i) = Some (cs ! i)))
   \<and> (\<forall>e. get_constraints names = Inl e \<longrightarrow>
         (\<exists>bad \<in> set names. bad \<notin> set (map fst CONSTRAINT_REGISTRY)
            \<and> e = KeyError (''Unknown constraint '' @ SQ @ bad @ SQ
                            @ ''. Available: ZeroBeta, ZeroInvestment'')))"
proof (cases "find (\<lambda>n. map_of CONSTRAINT_REGISTRY n = None) names")
  case None
  then have all: "\<forall>n \<in> set names. map_of CONSTRAINT_REGISTRY n \<noteq> None"
    by (simp add: find_None_iff)
  have r: "get_constraints names = Inr (map (\<lambda>n. the (map_of CONSTRAINT_REGISTRY n)) names)"
    using None by (simp add: get_constraints_def constraints_loop_find)
  have known: "\<not> (\<exists>n \<in> set names. n \<notin> set (map fst CONSTRAINT_REGISTRY))"
    using all registry_unknown by blast
  have each: "\<forall>i < length names.
      map_of CONSTRAINT_REGISTRY (names ! i)
        = Some (map (\<lambda>n. the (map_of CONSTRAINT_REGISTRY n)) names ! i)"
    using all by (metis nth_map nth_mem option.collapse)
  show ?thesis using r known each by simp
next
  case (Some bad)
  then have b: "bad \<in> set names" "map_of CONSTRAINT_REGISTRY bad = None"
    by (auto simp: find_Some_iff)
  have r: "get_constraints names = Inl (unknown_constraint bad)"
    using Some by (simp add: get_constraints_def constraints_loop_find)
  have u: "bad \<notin> set (map fst CONSTRAINT_REGISTRY)" using b(2) registry_unknown by blast
  have m: "unknown_constraint bad = KeyError (''Unknown constraint '' @ SQ @ bad @ SQ
                            @ ''. Available: ZeroBeta, ZeroInvestment'')"
    unfolding unknown_constraint_def available_names by simp
  show ?thesis using r b(1) u m by auto
qed

theorem get_constraints_all_or_error_witness:
  "isl (get_constraints [''ZeroBeta'', ''MaxWeight''])
   \<and> get_constraints [''ZeroBeta'', ''MaxWeight'']
       = Inl (KeyError (''Unknown constraint '' @ SQ @ ''MaxWeight'' @ SQ
                        @ ''. Available: ZeroBeta, ZeroInvestment''))
   \<and> get_constraints [''ZeroInvestment'', ''ZeroBeta''] = Inr [ZeroInvestment, ZeroBeta]"
proof -
  have k: "\<exists>n \<in> set [''ZeroBeta'', ''MaxWeight'']. n \<notin> set (map fst CONSTRAINT_REGISTRY)"
    by (simp add: CONSTRAINT_REGISTRY_def)
  have a: "isl (get_constraints [''ZeroBeta'', ''MaxWeight''])"
    using get_constraints_all_or_error [of "[''ZeroBeta'', ''MaxWeight'']"] k by blast
  have b: "get_constraints [''ZeroBeta'', ''MaxWeight'']
       = Inl (KeyError (''Unknown constraint '' @ SQ @ ''MaxWeight'' @ SQ
                        @ ''. Available: ZeroBeta, ZeroInvestment''))"
    by (simp add: get_constraints_def CONSTRAINT_REGISTRY_def unknown_constraint_def)
  have c: "get_constraints [''ZeroInvestment'', ''ZeroBeta''] = Inr [ZeroInvestment, ZeroBeta]"
    by (simp add: get_constraints_def CONSTRAINT_REGISTRY_def)
  show ?thesis using a b c by blast
qed

subsection \<open>The YAML round trip\<close>






lemma post_init_paths: "output_dir (post_init fmt c) \<noteq> None \<and> logs_dir (post_init fmt c) \<noteq> None"
  by (simp add: post_init_def Let_def)

lemma BacktestConfig_init_paths:
  "BacktestConfig_init fmt kv = Inr c \<Longrightarrow> output_dir c \<noteq> None \<and> logs_dir c \<noteq> None"
  unfolding BacktestConfig_init_def bindE_def
  by (auto split: list.splits sum.splits simp: post_init_def Let_def)

subsection \<open>Submission\<close>



text \<open>
  C4. In a dry run submit_job returns None for every script, so the returned value does
  not carry the script text: two different scripts give the same value.
\<close>

theorem dry_run_returns_none:
  "fst (submit_job rejecting_env ''exit 0'' True demo_world) = Inr None
   \<and> fst (submit_job rejecting_env ''exit 1'' True demo_world) = Inr None"
  by (simp add: submit_job_def)

text \<open>
  C4, as the code has it. A dry run makes no scheduler call and writes no file; it
  returns None and prints the exact script text, framed by three banner lines and a
  heading.
\<close>

theorem dry_run_prints_script:
  "submit_job e script True w =
     (Inr None,
      w\<lparr>stdout := stdout w @ [banner, ''DRY RUN - Would submit the following script:'',
                               banner, script, banner]\<rparr>)
   \<and> sbatch_calls (snd (submit_job e script True w)) = sbatch_calls w
   \<and> files (snd (submit_job e script True w)) = files w"
  by (simp add: submit_job_def)

subsection \<open>The runner on an empty partition set\<close>

lemma prepare_keeps:
  "prepare r data d = (res, r1, d1) \<Longrightarrow>
   stdout (world_of d1) = stdout (world_of d) \<and> sbatch_calls (world_of d1) = sbatch_calls (world_of d)
   \<and> files (world_of d1) = files (world_of d)"
  by (auto simp: prepare_def Let_def split: option.splits)

text \<open>
  C10. When the directories are prepared, the data are loaded and the date column has no
  year, submit raises IndexError (list index out of range) at the first line it would
  print: nothing has been printed, no script file has been written and the scheduler has
  not been called, in a dry run or not.
\<close>

theorem submit_empty_years_raises:
  "prepare r data d = (Inr u, r1, d1) \<Longrightarrow> load_data r1 data d1 = (Inr df, r2) \<Longrightarrow>
   get_years df = Inr [] \<Longrightarrow>
   submit fmt e r data dry_run d = (Inl (IndexError ''list index out of range''), r2, d1)
   \<and> sbatch_calls (world_of d1) = sbatch_calls (world_of d)
   \<and> stdout (world_of d1) = stdout (world_of d)
   \<and> files (world_of d1) = files (world_of d)"
  using prepare_keeps[of r data d "Inr u" r1 d1]
  by (simp add: submit_def)

theorem submit_empty_years_raises_witness:
  "fst (submit demo_fmt rejecting_env demo_runner (Some empty_frame) False demo_disk)
     = Inl (IndexError ''list index out of range'')
   \<and> sbatch_calls (world_of (snd (snd (submit demo_fmt rejecting_env demo_runner (Some empty_frame) False demo_disk)))) = []
   \<and> stdout (world_of (snd (snd (submit demo_fmt rejecting_env demo_runner (Some empty_frame) False demo_disk)))) = []"
proof -
  obtain r1 d1 where p: "prepare demo_runner (Some empty_frame) demo_disk = (Inr (), r1, d1)"
    by (simp add: prepare_def demo_runner_def demo_config_def Let_def)
  obtain r2 where l: "load_data r1 (Some empty_frame) d1 = (Inr empty_frame, r2)"
    by (simp add: load_data_def)
  have g: "get_years empty_frame = Inr []" by (simp add: get_years_def empty_frame_def)
  have k: "sbatch_calls (world_of demo_disk) = [] \<and> stdout (world_of demo_disk) = []"
    by (simp add: demo_disk_def demo_world_def)
  show ?thesis
    using submit_empty_years_raises [OF p l g, of demo_fmt rejecting_env False] k by simp
qed

end
